theory Spec2Isabelle
  imports Main "HOL-Library.Word"
begin

section \<open>Go values used by the agent\<close>

text \<open>
  Go strings are byte strings: \<^typ>\<open>string\<close> (a list of \<^typ>\<open>char\<close>, each a byte).
  A Go \<open>map[K]V\<close> is a partial function \<open>'k \<rightharpoonup> 'v\<close>; the nil map is the empty one.
  A \<open>for k, v := range m\<close> loop visits every entry exactly once, in an order the
  language leaves unspecified and that may differ from one loop to the next. The order a
  particular loop takes is therefore an input of the model: a list \<open>ks\<close> of keys, and
  \<open>range_order ks m\<close> says that \<open>ks\<close> is an order the runtime can take on \<open>m\<close>.
\<close>

definition range_order :: "'k list \<Rightarrow> ('k \<rightharpoonup> 'v) \<Rightarrow> bool" where
  "range_order ks m \<longleftrightarrow> distinct ks \<and> set ks = dom m"

definition range_map :: "'k list \<Rightarrow> ('k \<rightharpoonup> 'v) \<Rightarrow> ('k \<times> 'v) list" where
  "range_map ks m = List.map_filter (\<lambda>k. map_option (Pair k) (m k)) ks"

text \<open>\<open>strconv.Itoa\<close>: the signed decimal rendering of an integer.\<close>

fun digits :: "nat \<Rightarrow> string" where
  "digits n = (if n < 10 then [''0123456789'' ! n]
               else digits (n div 10) @ [''0123456789'' ! (n mod 10)])"

declare digits.simps [simp del]

definition Itoa :: "int \<Rightarrow> string" where
  "Itoa i = (if i < 0 then CHR ''-'' # digits (nat (- i)) else digits (nat i))"

text \<open>
  \<open>bytes.IndexByte b c\<close> is the index of the first \<open>c\<close> in \<open>b\<close>, or \<open>-1\<close>.
  The slice expression \<open>b[:i]\<close> panics at run time when \<open>i\<close> is negative or exceeds
  the length.
\<close>

datatype panic = SliceBoundsOutOfRange

definition IndexByte :: "string \<Rightarrow> char \<Rightarrow> int" where
  "IndexByte b c = (if c \<in> set b then int (length (takeWhile (\<lambda>x. x \<noteq> c) b)) else - 1)"

definition slice_to :: "string \<Rightarrow> int \<Rightarrow> panic + string" where
  "slice_to b i = (if i < 0 \<or> int (length b) < i then Inl SliceBoundsOutOfRange
                   else Inr (take (nat i) b))"

section \<open>Data model (types.go)\<close>

record MatchPolicy =
  PolicyName :: string
  Severity :: string
  Tags :: "string list"
  Message :: string
  Source :: string
  Operation :: string
  Resource :: string
  Action :: string

record Container =
  ContainerID :: string
  ContainerName :: string
  HostName :: string
  HostIP :: string
  NamespaceName :: string
  ContainerGroupName :: string
  ImageName :: string
  Labels :: "string list"
  AppArmorProfile :: string

text \<open>\<open>PidNode\<close>; \<open>ExitedTime\<close> (a \<open>time.Time\<close>) is kept as a number of ticks.\<close>

record PidNode =
  PidID :: "32 word"
  MntID :: "32 word"
  HostPID :: "32 word"
  PPID :: "32 word"
  PID :: "32 word"
  UID :: "32 word"
  Comm :: string
  ExecPath :: string
  Exited :: bool
  ExitedTime :: nat

type_synonym PidMap = "32 word \<rightharpoonup> PidNode"

text \<open>\<open>tp.Log\<close>. The four integer fields are \<open>int32\<close>: 32-bit words read with \<^const>\<open>sint\<close>.\<close>

record Log =
  UpdatedTime :: string
  HostName :: string
  NamespaceName :: string
  PodName :: string
  ContainerID :: string
  ContainerName :: string
  HostPID :: "32 word"
  PPID :: "32 word"
  PID :: "32 word"
  UID :: "32 word"
  PolicyName :: string
  Severity :: string
  Tags :: string
  Message :: string
  Type :: string
  Source :: string
  Operation :: string
  Resource :: string
  Data :: string
  Action :: string
  Result :: string

text \<open>The zero value \<open>tp.Log{}\<close>.\<close>

definition Log_zero :: Log where
  "Log_zero = \<lparr> UpdatedTime = '''', HostName = '''', NamespaceName = '''', PodName = '''',
      ContainerID = '''', ContainerName = '''', HostPID = 0, PPID = 0, PID = 0, UID = 0,
      PolicyName = '''', Severity = '''', Tags = '''', Message = '''', Type = '''',
      Source = '''', Operation = '''', Resource = '''', Data = '''', Action = '''',
      Result = '''' \<rparr>"

section \<open>Syscall events (monitor package)\<close>

text \<open>
  The event-id constants \<open>SYS_OPEN\<close>, ... are declared in a file of the monitor package
  that is not part of the sources at hand. They are distinct integer constants (eight of
  them label the cases of one \<open>switch\<close>); the model keeps them as an enumeration, with
  \<open>SYS_OTHER n\<close> for every other event id.
\<close>

datatype event_id =
    SYS_OPEN | SYS_OPENAT | SYS_CLOSE | SYS_SOCKET | SYS_CONNECT | SYS_ACCEPT
  | SYS_BIND | SYS_LISTEN | SYS_EXECVE | SYS_EXECVEAT | SYS_OTHER nat

text \<open>
  \<open>PERMISSION_DENIED\<close> is declared outside the sources at hand as well; the design
  document gives it as \<open>-EACCES\<close>, and \<open>EACCES\<close> is errno 13.
\<close>

definition PERMISSION_DENIED :: int where
  "PERMISSION_DENIED = - 13"

text \<open>
  An element of \<open>ContextArgs\<close> is an \<open>interface{}\<close>: a value with its dynamic type.
  The type assertions of \<open>UpdateLogs\<close> tell apart \<open>int32\<close>, \<open>string\<close> and
  \<open>map[string]string\<close>; a value of any other dynamic type is \<open>ArgOtherType\<close>.
\<close>

datatype arg =
    ArgInt32 "32 word"
  | ArgString string
  | ArgSockAddr "string \<Rightarrow> string option"
  | ArgOtherType

text \<open>
  \<open>SyscallContext\<close> and \<open>ContextCombined\<close> are declared outside the sources at hand;
  the fields are those the design document lists for a syscall event and those
  \<open>BuildLogBase\<close> and \<open>UpdateLogs\<close> read. \<open>Comm\<close> is the byte array \<open>comm[16]\<close>;
  \<open>Retval\<close> is a signed integer.
\<close>

record SyscallContext =
  Ts :: nat
  PidID :: "32 word"
  MntID :: "32 word"
  HostPID :: "32 word"
  PPID :: "32 word"
  PID :: "32 word"
  UID :: "32 word"
  EventID :: event_id
  Retval :: int
  Comm :: string

record ContextCombined =
  ContainerID :: string
  ContextSys :: SyscallContext
  ContextArgs :: "arg list"

text \<open>
  The type assertion \<open>if val, ok := a.(T); ok { x = val }\<close> on a variable \<open>x\<close> that
  still holds its zero value: the empty string, or the nil map. For a file descriptor the
  assigned value is \<open>strconv.Itoa(int(val))\<close>.
\<close>

definition assertString :: "arg \<Rightarrow> string" where
  "assertString a = (case a of ArgString val \<Rightarrow> val | _ \<Rightarrow> '''')"

definition assertInt32Itoa :: "arg \<Rightarrow> string" where
  "assertInt32Itoa a = (case a of ArgInt32 val \<Rightarrow> Itoa (sint val) | _ \<Rightarrow> '''')"

definition assertSockAddr :: "arg \<Rightarrow> (string \<Rightarrow> string option)" where
  "assertSockAddr a = (case a of ArgSockAddr val \<Rightarrow> val | _ \<Rightarrow> Map.empty)"

section \<open>Records of the streaming RPC (kubearmor.proto)\<close>

text \<open>\<open>pb.Message\<close> and \<open>pb.Log\<close>, the records sent to the subscribers.\<close>

record pb_Message =
  UpdatedTime :: string
  ClusterName :: string
  HostName :: string
  HostIP :: string
  Level :: string
  Message :: string

record pb_Log =
  UpdatedTime :: string
  ClusterName :: string
  HostName :: string
  NamespaceName :: string
  PodName :: string
  ContainerID :: string
  ContainerName :: string
  HostPID :: "32 word"
  PPID :: "32 word"
  PID :: "32 word"
  UID :: "32 word"
  PolicyName :: string
  Severity :: string
  Tags :: string
  Message :: string
  Type :: string
  Source :: string
  Operation :: string
  Resource :: string
  Data :: string
  Action :: string
  Result :: string

definition pb_Log_zero :: pb_Log where
  "pb_Log_zero = \<lparr> UpdatedTime = '''', ClusterName = '''', HostName = '''',
      NamespaceName = '''', PodName = '''', ContainerID = '''', ContainerName = '''',
      HostPID = 0, PPID = 0, PID = 0, UID = 0, PolicyName = '''', Severity = '''',
      Tags = '''', Message = '''', Type = '''', Source = '''', Operation = '''',
      Resource = '''', Data = '''', Action = '''', Result = '''' \<rparr>"

section \<open>The log feeder (feeder.go)\<close>

subsection \<open>State\<close>

text \<open>
  A subscriber's \<open>Client\<close> is the server side of its gRPC stream; the model names a
  stream by a number.
\<close>

type_synonym client = nat

record MsgStruct =
  Client :: client
  Filter :: string

record LogStruct =
  Client :: client
  Filter :: string

record LogService =
  MsgStructs :: "string \<Rightarrow> MsgStruct option"
  LogStructs :: "string \<Rightarrow> LogStruct option"

text \<open>
  \<open>Feeder\<close>, without its listener, gRPC server, wait group and lock. \<open>MatchPolicies\<close>
  is a struct around one slice, kept as the list. The field \<open>output\<close> is written
  \<open>output'\<close>: the plain name is reserved in Isabelle.
\<close>

record Feeder =
  port :: string
  output' :: string
  clusterName :: string
  hostName :: string
  hostIP :: string
  SecurityPolicies :: "string \<Rightarrow> MatchPolicy list option"
  EnableSystemLog :: bool

text \<open>
  Everything the feeder's functions read and write besides their arguments: the
  package-level variables \<open>Running\<close>, \<open>MsgQueue\<close> and \<open>LogQueue\<close>, the subscriber
  tables of the \<open>LogService\<close>, the local sinks (the lines printed on standard output, the
  contents of the files), and the gRPC streams. \<open>Broken c\<close> holds when \<open>Send\<close> on
  stream \<open>c\<close> fails. \<open>MsgSends\<close> and \<open>LogSends\<close> list the calls of \<open>Send\<close> in
  the order they were made: the subscriber entry, the item, and the error returned
  (\<open>None\<close> is nil: the item went out on the stream).
\<close>

datatype error = StreamError

record World =
  Running :: bool
  MsgQueue :: "pb_Message list"
  LogQueue :: "pb_Log list"
  service :: LogService
  Stdout :: "string list"
  Files :: "string \<Rightarrow> string option"
  Broken :: "client \<Rightarrow> bool"
  MsgSends :: "(MsgStruct \<times> pb_Message \<times> error option) list"
  LogSends :: "(LogStruct \<times> pb_Log \<times> error option) list"

text \<open>
  \<open>mgs.Client.Send(&msg)\<close> and \<open>lgs.Client.Send(&log)\<close>: the call is recorded with
  the error it returns, and the error is the result.
\<close>

definition Send_result :: "World \<Rightarrow> client \<Rightarrow> error option" where
  "Send_result w c = (if Broken w c then Some StreamError else None)"

definition Send_Message :: "MsgStruct \<Rightarrow> pb_Message \<Rightarrow> World \<Rightarrow> World \<times> error option" where
  "Send_Message mgs msg w =
     (w\<lparr>MsgSends := MsgSends w @ [(mgs, msg, Send_result w (MsgStruct.Client mgs))]\<rparr>,
      Send_result w (MsgStruct.Client mgs))"

definition Send_Log :: "LogStruct \<Rightarrow> pb_Log \<Rightarrow> World \<Rightarrow> World \<times> error option" where
  "Send_Log lgs log w =
     (w\<lparr>LogSends := LogSends w @ [(lgs, log, Send_result w (LogStruct.Client lgs))]\<rparr>,
      Send_result w (LogStruct.Client lgs))"

subsection \<open>Message subscribers\<close>

definition addMsgStruct :: "string \<Rightarrow> client \<Rightarrow> string \<Rightarrow> LogService \<Rightarrow> LogService" where
  "addMsgStruct uid srv filter' ls =
     ls\<lparr>MsgStructs := (MsgStructs ls)(uid \<mapsto> \<lparr>MsgStruct.Client = srv, MsgStruct.Filter = filter'\<rparr>)\<rparr>"

definition removeMsgStruct :: "string \<Rightarrow> LogService \<Rightarrow> LogService" where
  "removeMsgStruct uid ls = ls\<lparr>MsgStructs := (MsgStructs ls)(uid := None)\<rparr>"

text \<open>\<open>getMsgStructs\<close> copies the table's values in the order \<open>ks\<close> its \<open>range\<close> loop takes.\<close>

definition getMsgStructs :: "string list \<Rightarrow> LogService \<Rightarrow> MsgStruct list" where
  "getMsgStructs ks ls = map snd (range_map ks (MsgStructs ls))"

text \<open>
  The innermost loop of \<open>WatchMessages\<close>: \<open>for _, mgs := range msgStructs\<close>. The error
  that \<open>Send\<close> returns is not looked at.
\<close>

fun sendMsgStructs :: "pb_Message \<Rightarrow> MsgStruct list \<Rightarrow> World \<Rightarrow> World" where
  "sendMsgStructs msg [] w = w"
| "sendMsgStructs msg (mgs # rest) w = sendMsgStructs msg rest (fst (Send_Message mgs msg w))"

lemma MsgQueue_sendMsgStructs [simp]: "MsgQueue (sendMsgStructs msg ms w) = MsgQueue w"
  by (induction ms arbitrary: w) (simp_all add: Send_Message_def)

text \<open>The loop \<open>for len(MsgQueue) != 0\<close>: take the head of the queue, send it to the snapshot.\<close>

function drainMsgQueue :: "MsgStruct list \<Rightarrow> World \<Rightarrow> World" where
  "drainMsgQueue msgStructs w =
     (case MsgQueue w of
        [] \<Rightarrow> w
      | msg # rest \<Rightarrow> drainMsgQueue msgStructs (sendMsgStructs msg msgStructs (w\<lparr>MsgQueue := rest\<rparr>)))"
  by pat_completeness auto
termination
  by (relation "measure (\<lambda>(ms, w). length (MsgQueue w))") simp_all

declare drainMsgQueue.simps [simp del]

text \<open>
  One pass of the \<open>for Running\<close> loop of \<open>WatchMessages\<close>, from \<open>MsgLock.Lock()\<close> to
  \<open>MsgLock.Unlock()\<close>; \<open>ks\<close> is the order \<open>getMsgStructs\<close> takes through the table.
\<close>

definition WatchMessages_pass :: "string list \<Rightarrow> World \<Rightarrow> World" where
  "WatchMessages_pass ks w = drainMsgQueue (getMsgStructs ks (service w)) w"

subsection \<open>Log subscribers\<close>

definition addLogStruct :: "string \<Rightarrow> client \<Rightarrow> string \<Rightarrow> LogService \<Rightarrow> LogService" where
  "addLogStruct uid srv filter' ls =
     ls\<lparr>LogStructs := (LogStructs ls)(uid \<mapsto> \<lparr>LogStruct.Client = srv, LogStruct.Filter = filter'\<rparr>)\<rparr>"

definition removeLogStruct :: "string \<Rightarrow> LogService \<Rightarrow> LogService" where
  "removeLogStruct uid ls = ls\<lparr>LogStructs := (LogStructs ls)(uid := None)\<rparr>"

definition getLogStructs :: "string list \<Rightarrow> LogService \<Rightarrow> LogStruct list" where
  "getLogStructs ks ls = map snd (range_map ks (LogStructs ls))"

text \<open>The innermost loop of \<open>WatchLogs\<close>: \<open>for _, lgs := range logStructs\<close>.\<close>

fun sendLogStructs :: "pb_Log \<Rightarrow> LogStruct list \<Rightarrow> World \<Rightarrow> World" where
  "sendLogStructs log [] w = w"
| "sendLogStructs log (lgs # rest) w =
     sendLogStructs log rest
       (if LogStruct.Filter lgs = '''' then fst (Send_Log lgs log w)
        else if LogStruct.Filter lgs = ''policy'' \<and>
                (pb_Log.Type log = ''MatchedPolicy'' \<or> pb_Log.Type log = ''MatchedHostPolicy'')
          then fst (Send_Log lgs log w)
        else if LogStruct.Filter lgs = ''system'' \<and>
                (pb_Log.Type log = ''ContainerLog'' \<or> pb_Log.Type log = ''HostLog'')
          then fst (Send_Log lgs log w)
        else w)"

lemma LogQueue_sendLogStructs [simp]: "LogQueue (sendLogStructs log ls w) = LogQueue w"
  by (induction ls arbitrary: w) (simp_all add: Send_Log_def)

function drainLogQueue :: "LogStruct list \<Rightarrow> World \<Rightarrow> World" where
  "drainLogQueue logStructs w =
     (case LogQueue w of
        [] \<Rightarrow> w
      | log # rest \<Rightarrow> drainLogQueue logStructs (sendLogStructs log logStructs (w\<lparr>LogQueue := rest\<rparr>)))"
  by pat_completeness auto
termination
  by (relation "measure (\<lambda>(ls, w). length (LogQueue w))") simp_all

declare drainLogQueue.simps [simp del]

text \<open>One pass of the \<open>for Running\<close> loop of \<open>WatchLogs\<close>, under \<open>LogLock\<close>.\<close>

definition WatchLogs_pass :: "string list \<Rightarrow> World \<Rightarrow> World" where
  "WatchLogs_pass ks w = drainLogQueue (getLogStructs ks (service w)) w"

subsection \<open>Interleavings of the log side\<close>

text \<open>
  The goroutines of the log side touch the shared state only while they hold \<open>LogLock\<close>
  or the table's lock. A run of the feeder is a sequence of these critical sections:
  a \<open>WatchLogs\<close> call registering its subscriber, the deferred removal when it returns,
  \<open>PushLog\<close> appending to the queue, one pass of a \<open>WatchLogs\<close> loop (made only
  while \<open>Running\<close> holds), and \<open>DestroyFeeder\<close> clearing \<open>Running\<close>.
\<close>

datatype feeder_event =
    Subscribe string client string
  | Unsubscribe string
  | Enqueue pb_Log
  | Pass "string list"
  | Stop

fun feeder_step :: "World \<Rightarrow> feeder_event \<Rightarrow> World" where
  "feeder_step w (Subscribe uid srv f) = w\<lparr>service := addLogStruct uid srv f (service w)\<rparr>"
| "feeder_step w (Unsubscribe uid) = w\<lparr>service := removeLogStruct uid (service w)\<rparr>"
| "feeder_step w (Enqueue log) = w\<lparr>LogQueue := LogQueue w @ [log]\<rparr>"
| "feeder_step w (Pass ks) = (if Running w then WatchLogs_pass ks w else w)"
| "feeder_step w Stop = w\<lparr>Running := False\<rparr>"

definition feeder_run :: "World \<Rightarrow> feeder_event list \<Rightarrow> World" where
  "feeder_run w evs = foldl feeder_step w evs"

subsection \<open>Pushing messages and logs\<close>

text \<open>
  \<open>PushMessage\<close>; \<open>now\<close> is what \<open>kl.GetDateTimeNow()\<close> returns at the call. The error
  returned is always nil (\<open>None\<close>).
\<close>

definition PushMessage :: "Feeder \<Rightarrow> string \<Rightarrow> string \<Rightarrow> string \<Rightarrow> World \<Rightarrow> World \<times> error option" where
  "PushMessage fd now level message w =
     (let pbMsg = \<lparr> pb_Message.UpdatedTime = now, pb_Message.ClusterName = clusterName fd,
                     pb_Message.HostName = hostName fd, pb_Message.HostIP = hostIP fd,
                     pb_Message.Level = level, pb_Message.Message = message \<rparr>
      in (w\<lparr>MsgQueue := MsgQueue w @ [pbMsg]\<rparr>, None))"

text \<open>
  Modelled from the spec: \<open>kl.StrToFile\<close> belongs to the agent's common package, which
  is not part of the sources at hand. The design document has the file sink append one
  line per log, newline-terminated.
\<close>

definition StrToFile :: "string \<Rightarrow> string \<Rightarrow> World \<Rightarrow> World" where
  "StrToFile str path w =
     w\<lparr>Files := (Files w)(path \<mapsto> (case Files w path of None \<Rightarrow> '''' | Some old \<Rightarrow> old) @ str @ [CHR 0x0A])\<rparr>"

text \<open>
  \<open>PushLog\<close>. \<open>UpdateMatchedPolicy\<close> (the policy matcher, a method of the feeder that is
  not part of the sources at hand) and \<open>json.Marshal\<close> are parameters.
\<close>

definition PushLog ::
  "(Feeder \<Rightarrow> Log \<Rightarrow> Log) \<Rightarrow> (Log \<Rightarrow> string) \<Rightarrow> Feeder \<Rightarrow> Log \<Rightarrow> World \<Rightarrow> World \<times> error option" where
  "PushLog UpdateMatchedPolicy Marshal fd log0 w =
     (let log = UpdateMatchedPolicy fd log0 in
      if Log.UpdatedTime log = '''' then (w, None)
      else
        let w1 = (if output' fd = ''stdout'' then w\<lparr>Stdout := Stdout w @ [Marshal log]\<rparr>
                  else if output' fd \<noteq> ''none'' then StrToFile (Marshal log) (output' fd) w
                  else w);
            pbLog = pb_Log_zero\<lparr>
              pb_Log.UpdatedTime := Log.UpdatedTime log,
              pb_Log.ClusterName := clusterName fd,
              pb_Log.HostName := Log.HostName log,
              pb_Log.NamespaceName := Log.NamespaceName log,
              pb_Log.PodName := Log.PodName log,
              pb_Log.ContainerID := Log.ContainerID log,
              pb_Log.ContainerName := Log.ContainerName log,
              pb_Log.HostPID := Log.HostPID log,
              pb_Log.PPID := Log.PPID log,
              pb_Log.PID := Log.PID log,
              pb_Log.UID := Log.UID log,
              pb_Log.PolicyName := (if length (Log.PolicyName log) > 0 then Log.PolicyName log else ''''),
              pb_Log.Severity := (if length (Log.Severity log) > 0 then Log.Severity log else ''''),
              pb_Log.Tags := (if length (Log.Tags log) > 0 then Log.Tags log else ''''),
              pb_Log.Message := (if length (Log.Message log) > 0 then Log.Message log else ''''),
              pb_Log.Type := Log.Type log,
              pb_Log.Source := Log.Source log,
              pb_Log.Operation := Log.Operation log,
              pb_Log.Resource := Log.Resource log,
              pb_Log.Data := (if length (Log.Data log) > 0 then Log.Data log else ''''),
              pb_Log.Action := (if length (Log.Action log) > 0 then Log.Action log else ''''),
              pb_Log.Result := Log.Result log\<rparr>
        in (w1\<lparr>LogQueue := LogQueue w1 @ [pbLog]\<rparr>, None))"

section \<open>The log builder (monitor package)\<close>

text \<open>
  \<open>SystemMonitor\<close> is declared outside the sources at hand; these are the fields that
  \<open>GetNameFromContainerID\<close>, \<open>BuildLogBase\<close> and \<open>UpdateLogs\<close> read. \<open>LogFeeder\<close> is
  a pointer: \<open>None\<close> is nil.
\<close>

record SystemMonitor =
  HostName :: string
  Containers :: "string \<Rightarrow> Container option"
  ActivePidMap :: "string \<Rightarrow> PidMap option"
  EnableAuditd :: bool
  LogFeeder :: "Feeder option"

definition GetNameFromContainerID :: "SystemMonitor \<Rightarrow> string \<Rightarrow> string \<times> string \<times> string" where
  "GetNameFromContainerID mon containerID =
     (case Containers mon containerID of
        Some val \<Rightarrow> (Container.NamespaceName val, ContainerGroupName val, Container.ContainerName val)
      | None \<Rightarrow> ('''', '''', ''''))"

text \<open>
  Modelled from the spec: \<open>GetExecPath\<close> belongs to the process-tree tracker, which is
  not part of the sources at hand. The design document gives \<open>exec_path(container_id, pid)\<close>
  as a lookup in the per-container map from pid to process node, returning a string; an
  unknown container or pid gives the empty string.
\<close>

definition GetExecPath :: "SystemMonitor \<Rightarrow> string \<Rightarrow> 32 word \<Rightarrow> string" where
  "GetExecPath mon containerID pid =
     (case ActivePidMap mon containerID of
        None \<Rightarrow> ''''
      | Some pidMap \<Rightarrow> (case pidMap pid of None \<Rightarrow> '''' | Some node \<Rightarrow> ExecPath node))"

text \<open>
  \<open>BuildLogBase\<close>; \<open>now\<close> is what \<open>kl.GetDateTimeNow()\<close> returns. The conversions
  \<open>int32(...)\<close> of the four \<open>uint32\<close> fields keep the 32 bits.
\<close>

definition BuildLogBase :: "SystemMonitor \<Rightarrow> string \<Rightarrow> ContextCombined \<Rightarrow> panic + Log" where
  "BuildLogBase mon now msg =
     (let sys = ContextSys msg;
          log = Log_zero\<lparr>Log.UpdatedTime := now\<rparr>;
          log = log\<lparr>Log.HostName := SystemMonitor.HostName mon\<rparr>;
          log = log\<lparr>Log.ContainerID := ContextCombined.ContainerID msg\<rparr>;
          (ns, pod, cname) = GetNameFromContainerID mon (Log.ContainerID log);
          log = log\<lparr>Log.NamespaceName := ns, Log.PodName := pod, Log.ContainerName := cname\<rparr>;
          log = log\<lparr>Log.HostPID := SyscallContext.HostPID sys, Log.PPID := SyscallContext.PPID sys,
                     Log.PID := SyscallContext.PID sys, Log.UID := SyscallContext.UID sys\<rparr>;
          log = (if EventID sys = SYS_EXECVE \<or> EventID sys = SYS_EXECVEAT
                 then log\<lparr>Log.Source := GetExecPath mon (ContextCombined.ContainerID msg) (SyscallContext.PPID sys)\<rparr>
                 else log\<lparr>Log.Source := GetExecPath mon (ContextCombined.ContainerID msg) (SyscallContext.PID sys)\<rparr>)
      in if Log.Source log = ''''
         then (case slice_to (SyscallContext.Comm sys) (IndexByte (SyscallContext.Comm sys) (CHR 0x00)) of
                 Inl p \<Rightarrow> Inl p
               | Inr s \<Rightarrow> Inr (log\<lparr>Log.Source := s\<rparr>))
         else Inr log)"

text \<open>
  Modelled from the spec: \<open>getSyscallName\<close> is not part of the sources at hand. The
  design document names the operations \<open>open\<close>, \<open>openat\<close>, \<open>close\<close>, \<open>socket\<close>,
  \<open>connect\<close>, \<open>accept\<close>, \<open>bind\<close>, \<open>listen\<close>, \<open>execve\<close> and \<open>execveat\<close>, and
  gives \<open>resource="close"\<close> and \<open>resource="syscall=listen"\<close> where \<open>UpdateLogs\<close>
  writes the name. Nothing is said about other event ids.
\<close>

fun getSyscallName :: "event_id \<Rightarrow> string" where
  "getSyscallName SYS_OPEN = ''open''"
| "getSyscallName SYS_OPENAT = ''openat''"
| "getSyscallName SYS_CLOSE = ''close''"
| "getSyscallName SYS_SOCKET = ''socket''"
| "getSyscallName SYS_CONNECT = ''connect''"
| "getSyscallName SYS_ACCEPT = ''accept''"
| "getSyscallName SYS_BIND = ''bind''"
| "getSyscallName SYS_LISTEN = ''listen''"
| "getSyscallName SYS_EXECVE = ''execve''"
| "getSyscallName SYS_EXECVEAT = ''execveat''"

text \<open>
  Modelled from the spec: \<open>getErrorMessage\<close> and its errno table are not part of the
  sources at hand. The design document has it translate \<open>-retval\<close> through the errno
  table into a symbolic name; \<open>UpdateLogs\<close> takes the empty string for an unknown code.
  The table \<open>tbl\<close> (errno to name) is a parameter.
\<close>

definition getErrorMessage :: "(int \<Rightarrow> string option) \<Rightarrow> int \<Rightarrow> string" where
  "getErrorMessage tbl retval = (case tbl (- retval) of Some name \<Rightarrow> name | None \<Rightarrow> '''')"

text \<open>
  The loop \<open>for k, v := range sockAddr\<close> of the connect, accept and bind cases, over the
  entries in the order the loop visits them.
\<close>

fun appendSockAddr :: "string \<Rightarrow> (string \<times> string) list \<Rightarrow> string" where
  "appendSockAddr resource [] = resource"
| "appendSockAddr resource ((k, v) # rest) = appendSockAddr (resource @ '' '' @ k @ ''='' @ v) rest"

text \<open>
  The \<open>switch msg.ContextSys.EventID\<close> of \<open>UpdateLogs\<close>. \<open>None\<close> is \<open>continue\<close>:
  the loop goes on to the next event and nothing is pushed for this one. \<open>ks\<close> is the
  order the \<open>range\<close> loop over the socket address takes.
\<close>

definition UpdateLogs_switch :: "SystemMonitor \<Rightarrow> string list \<Rightarrow> ContextCombined \<Rightarrow> Log \<Rightarrow> Log option" where
  "UpdateLogs_switch mon ks msg log =
     (let args = ContextArgs msg; sys = ContextSys msg in
      case EventID sys of
        SYS_OPEN \<Rightarrow>
          (let fileName = (if length args = 2 then assertString (args ! 0) else '''');
               fileOpenFlags = (if length args = 2 then assertString (args ! 1) else '''');
               log = log\<lparr>Log.Operation := ''File'', Log.Resource := fileName,
                          Log.Data := ''flags='' @ fileOpenFlags\<rparr>
           in if EnableAuditd mon \<and> Retval sys = PERMISSION_DENIED then None else Some log)
      | SYS_OPENAT \<Rightarrow>
          (let fd = (if length args = 3 then assertInt32Itoa (args ! 0) else '''');
               fileName = (if length args = 3 then assertString (args ! 1) else '''');
               fileOpenFlags = (if length args = 3 then assertString (args ! 2) else '''');
               log = log\<lparr>Log.Operation := ''File'', Log.Resource := fileName,
                          Log.Data := ''fd='' @ fd @ '' flags='' @ fileOpenFlags\<rparr>
           in if EnableAuditd mon \<and> Retval sys = PERMISSION_DENIED then None else Some log)
      | SYS_CLOSE \<Rightarrow>
          (let fd = (if length args = 1 then assertInt32Itoa (args ! 0) else '''')
           in Some (log\<lparr>Log.Operation := ''File'', Log.Resource := getSyscallName (EventID sys),
                         Log.Data := ''fd='' @ fd\<rparr>))
      | SYS_SOCKET \<Rightarrow>
          (let sockDomain = (if length args = 3 then assertString (args ! 0) else '''');
               sockType = (if length args = 3 then assertString (args ! 1) else '''');
               sockProtocol = (if length args = 3 then assertInt32Itoa (args ! 2) else '''')
           in Some (log\<lparr>Log.Operation := ''Network'',
                         Log.Resource := ''syscall='' @ getSyscallName (EventID sys) @ '' domain='' @ sockDomain
                                          @ '' type='' @ sockType @ '' protocol='' @ sockProtocol,
                         Log.Data := ''''\<rparr>))
      | SYS_CONNECT \<Rightarrow>
          (let fd = (if length args = 2 then assertInt32Itoa (args ! 0) else '''');
               sockAddr = (if length args = 2 then assertSockAddr (args ! 1) else Map.empty);
               log = log\<lparr>Log.Operation := ''Network'',
                          Log.Resource := ''syscall='' @ getSyscallName (EventID sys)\<rparr>;
               log = log\<lparr>Log.Resource := appendSockAddr (Log.Resource log) (range_map ks sockAddr)\<rparr>
           in Some (log\<lparr>Log.Data := ''fd='' @ fd\<rparr>))
      | SYS_ACCEPT \<Rightarrow>
          (let fd = (if length args = 2 then assertInt32Itoa (args ! 0) else '''');
               sockAddr = (if length args = 2 then assertSockAddr (args ! 1) else Map.empty);
               log = log\<lparr>Log.Operation := ''Network'',
                          Log.Resource := ''syscall='' @ getSyscallName (EventID sys),
                          Log.Data := ''fd='' @ fd\<rparr>
           in Some (log\<lparr>Log.Resource := appendSockAddr (Log.Resource log) (range_map ks sockAddr)\<rparr>))
      | SYS_BIND \<Rightarrow>
          (let fd = (if length args = 2 then assertInt32Itoa (args ! 0) else '''');
               sockAddr = (if length args = 2 then assertSockAddr (args ! 1) else Map.empty);
               log = log\<lparr>Log.Operation := ''Network'',
                          Log.Resource := ''syscall='' @ getSyscallName (EventID sys)\<rparr>;
               log = log\<lparr>Log.Resource := appendSockAddr (Log.Resource log) (range_map ks sockAddr)\<rparr>
           in Some (log\<lparr>Log.Data := ''fd='' @ fd\<rparr>))
      | SYS_LISTEN \<Rightarrow>
          (let fd = (if length args = 2 then assertInt32Itoa (args ! 0) else '''')
           in Some (log\<lparr>Log.Operation := ''Network'',
                         Log.Resource := ''syscall='' @ getSyscallName (EventID sys),
                         Log.Data := ''fd='' @ fd\<rparr>))
      | _ \<Rightarrow> None)"

text \<open>The part of \<open>UpdateLogs\<close> under \<open>// get error message\<close>: the value of \<open>log.Result\<close>.\<close>

definition UpdateLogs_result :: "(int \<Rightarrow> string option) \<Rightarrow> int \<Rightarrow> string" where
  "UpdateLogs_result tbl retval =
     (if retval < 0
      then (let message = getErrorMessage tbl retval
            in if message \<noteq> '''' then message else ''Unknown ('' @ Itoa retval @ '')'')
      else ''Passed'')"

text \<open>
  The body of the \<open>UpdateLogs\<close> loop for one event received on the context channel
  (a receive with \<open>valid\<close> true; the loop skips the others): \<open>Inl\<close> when
  \<open>BuildLogBase\<close> panics, \<open>Inr None\<close> when no log is handed to \<open>PushLog\<close>,
  \<open>Inr (Some log)\<close> when \<open>log\<close> is handed to \<open>PushLog\<close> (which runs in a
  goroutine of its own).
\<close>

definition UpdateLogs_event ::
  "(int \<Rightarrow> string option) \<Rightarrow> SystemMonitor \<Rightarrow> string \<Rightarrow> string list \<Rightarrow> ContextCombined \<Rightarrow> panic + Log option" where
  "UpdateLogs_event tbl mon now ks msg =
     (case BuildLogBase mon now msg of
        Inl p \<Rightarrow> Inl p
      | Inr log \<Rightarrow>
          (case UpdateLogs_switch mon ks msg log of
             None \<Rightarrow> Inr None
           | Some log \<Rightarrow>
               (let log = log\<lparr>Log.Result := UpdateLogs_result tbl (Retval (ContextSys msg))\<rparr>
                in if LogFeeder mon \<noteq> None then Inr (Some log) else Inr None)))"

text \<open>
  The loop of \<open>UpdateLogs\<close> over the events received on the context channel, each with
  the time and the iteration order of its turn: the logs handed to \<open>PushLog\<close>, in order,
  or the panic that ends the goroutine.
\<close>

fun UpdateLogs ::
  "(int \<Rightarrow> string option) \<Rightarrow> SystemMonitor \<Rightarrow> (string \<times> string list \<times> ContextCombined) list \<Rightarrow> panic + Log list" where
  "UpdateLogs tbl mon [] = Inr []"
| "UpdateLogs tbl mon ((now, ks, msg) # rest) =
     (case UpdateLogs_event tbl mon now ks msg of
        Inl p \<Rightarrow> Inl p
      | Inr pushed \<Rightarrow>
          (case UpdateLogs tbl mon rest of
             Inl p \<Rightarrow> Inl p
           | Inr logs \<Rightarrow> Inr ((case pushed of None \<Rightarrow> [] | Some log \<Rightarrow> [log]) @ logs)))"

section \<open>Predicates and example inputs used in the statements\<close>

text \<open>
  The condition under which the loop body of \<open>WatchLogs\<close> calls \<open>Send\<close>: the
  disjunction of the three branches of its \<open>if\<close> chain.
\<close>

definition filterAccepts :: "string \<Rightarrow> pb_Log \<Rightarrow> bool" where
  "filterAccepts f log \<longleftrightarrow>
     f = '''' \<or>
     f = ''policy'' \<and> (pb_Log.Type log = ''MatchedPolicy'' \<or> pb_Log.Type log = ''MatchedHostPolicy'') \<or>
     f = ''system'' \<and> (pb_Log.Type log = ''ContainerLog'' \<or> pb_Log.Type log = ''HostLog'')"

text \<open>
  A node with one registered container \<open>c1\<close> (namespace \<open>ns1\<close>, pod group \<open>web\<close>,
  container \<open>nginx\<close>) in which pid 12 runs \<open>/usr/sbin/cron\<close>; events come from a
  process whose \<open>comm\<close> is \<open>nginx\<close>, padded with NUL bytes to 16.
\<close>

definition ex_feeder :: Feeder where
  "ex_feeder = \<lparr> port = '':32767'', output' = ''none'', clusterName = '''', hostName = ''node1'',
      hostIP = ''10.0.0.1'', SecurityPolicies = Map.empty, EnableSystemLog = True \<rparr>"

definition ex_mon :: "bool \<Rightarrow> SystemMonitor" where
  "ex_mon auditd = \<lparr> SystemMonitor.HostName = ''node1'',
      Containers = [''c1'' \<mapsto> \<lparr> Container.ContainerID = ''c1'', Container.ContainerName = ''nginx'',
         Container.HostName = ''node1'', Container.HostIP = ''10.0.0.1'', Container.NamespaceName = ''ns1'',
         ContainerGroupName = ''web'', ImageName = ''nginx:latest'', Labels = [], AppArmorProfile = '''' \<rparr>],
      ActivePidMap = [''c1'' \<mapsto> [12 \<mapsto> \<lparr> PidNode.PidID = 1, PidNode.MntID = 1, PidNode.HostPID = 30,
         PidNode.PPID = 1, PidNode.PID = 12, PidNode.UID = 0, PidNode.Comm = ''cron'',
         ExecPath = ''/usr/sbin/cron'', Exited = False, ExitedTime = 0 \<rparr>]],
      EnableAuditd = auditd, LogFeeder = Some ex_feeder \<rparr>"

definition ex_msg :: "string \<Rightarrow> 32 word \<Rightarrow> 32 word \<Rightarrow> event_id \<Rightarrow> arg list \<Rightarrow> int \<Rightarrow> ContextCombined" where
  "ex_msg cid ppid pid eid args retval = \<lparr> ContextCombined.ContainerID = cid,
      ContextSys = \<lparr> Ts = 0, SyscallContext.PidID = 1, SyscallContext.MntID = 1,
        SyscallContext.HostPID = 42, SyscallContext.PPID = ppid, SyscallContext.PID = pid,
        SyscallContext.UID = 0, EventID = eid, Retval = retval,
        SyscallContext.Comm = ''nginx'' @ replicate 11 (CHR 0x00) \<rparr>,
      ContextArgs = args \<rparr>"

definition ex_tbl :: "int \<Rightarrow> string option" where
  "ex_tbl = [13 \<mapsto> ''EACCES'']"


text \<open>A feeder state with given subscriber tables, broken streams and queues, nothing sent yet.\<close>

definition ex_world ::
  "(string \<Rightarrow> MsgStruct option) \<Rightarrow> (string \<Rightarrow> LogStruct option) \<Rightarrow> (client \<Rightarrow> bool) \<Rightarrow>
     pb_Message list \<Rightarrow> pb_Log list \<Rightarrow> World" where
  "ex_world msgSubs logSubs broken msgs logs =
     \<lparr> Running = True, MsgQueue = msgs, LogQueue = logs,
       service = \<lparr> MsgStructs = msgSubs, LogStructs = logSubs \<rparr>,
       Stdout = [], Files = Map.empty, Broken = broken, MsgSends = [], LogSends = [] \<rparr>"

definition ex_pb_log :: "string \<Rightarrow> pb_Log" where
  "ex_pb_log ty = pb_Log_zero\<lparr>pb_Log.UpdatedTime := ''t0'', pb_Log.Type := ty\<rparr>"

definition ex_pb_msg :: pb_Message where
  "ex_pb_msg = \<lparr> pb_Message.UpdatedTime = ''t0'', pb_Message.ClusterName = '''',
     pb_Message.HostName = ''node1'', pb_Message.HostIP = ''10.0.0.1'',
     pb_Message.Level = ''INFO'', pb_Message.Message = ''started'' \<rparr>"

definition ex_sub :: "client \<Rightarrow> string \<Rightarrow> LogStruct" where
  "ex_sub c f = \<lparr> LogStruct.Client = c, LogStruct.Filter = f \<rparr>"

definition ex_msub :: "client \<Rightarrow> string \<Rightarrow> MsgStruct" where
  "ex_msub c f = \<lparr> MsgStruct.Client = c, MsgStruct.Filter = f \<rparr>"

text \<open>
  Three subscribers (no filter, \<open>policy\<close>, and the unknown filter \<open>audit\<close>), a system
  log and a policy log pushed, then one pass of the delivery loop.
\<close>

definition ex_run :: "feeder_event list" where
  "ex_run = [Subscribe ''a'' 1 '''', Subscribe ''b'' 2 ''policy'', Subscribe ''c'' 3 ''audit'',
             Enqueue (ex_pb_log ''ContainerLog''), Enqueue (ex_pb_log ''MatchedPolicy''),
             Pass [''a'', ''b'', ''c'']]"

text \<open>A policy matcher that blanks \<open>UpdatedTime\<close> when system logs are switched off.\<close>

definition ex_matcher :: "Feeder \<Rightarrow> Log \<Rightarrow> Log" where
  "ex_matcher fd log = (if EnableSystemLog fd then log\<lparr>Log.Type := ''ContainerLog''\<rparr>
                        else log\<lparr>Log.UpdatedTime := ''''\<rparr>)"

section \<open>Auxiliary facts\<close>

subsection \<open>Go values\<close>

lemma digits_small: "n < 10 \<Longrightarrow> digits n = [''0123456789'' ! n]"
  by (subst digits.simps) simp

lemma digits_large: "10 \<le> n \<Longrightarrow> digits n = digits (n div 10) @ [''0123456789'' ! (n mod 10)]"
  by (subst digits.simps) simp

lemma slice_to_IndexByte:
  "slice_to b (IndexByte b c) =
     (if c \<in> set b then Inr (takeWhile (\<lambda>x. x \<noteq> c) b) else Inl SliceBoundsOutOfRange)"
proof (cases "c \<in> set b")
  case True
  have "length (takeWhile (\<lambda>x. x \<noteq> c) b) \<le> length b"
    by (rule length_takeWhile_le)
  moreover have "take (length (takeWhile (\<lambda>x. x \<noteq> c) b)) b = takeWhile (\<lambda>x. x \<noteq> c) b"
    by (rule takeWhile_eq_take [symmetric])
  ultimately show ?thesis using True
    by (simp add: slice_to_def IndexByte_def)
next
  case False
  then show ?thesis by (simp add: slice_to_def IndexByte_def)
qed

lemma range_map_order:
  assumes "range_order ks m"
  shows "range_map ks m = map (\<lambda>k. (k, the (m k))) ks"
proof -
  have "\<forall>k \<in> set ks. m k \<noteq> None"
    using assms by (auto simp: range_order_def)
  then show ?thesis
    unfolding range_map_def
    by (induction ks) (auto simp: List.map_filter_simps)
qed


lemma range_map_values:
  assumes "range_order ks m"
  shows "set (map snd (range_map ks m)) = ran m"
  using assms
  by (force simp: range_map_order [OF assms] range_order_def ran_def image_iff)

lemma range_map_map_option:
  "range_map ks (\<lambda>k. map_option f (m k)) = map (apsnd f) (range_map ks m)"
  unfolding range_map_def
  by (induction ks) (auto simp: List.map_filter_simps split: option.splits)


subsection \<open>The log builder\<close>

lemma BuildLogBase_Inr:
  assumes "BuildLogBase mon now msg = Inr log"
  shows "Log.Source log =
           (let p = GetExecPath mon (ContextCombined.ContainerID msg)
                      (if EventID (ContextSys msg) = SYS_EXECVE \<or> EventID (ContextSys msg) = SYS_EXECVEAT
                       then SyscallContext.PPID (ContextSys msg) else SyscallContext.PID (ContextSys msg))
            in if p = '''' then takeWhile (\<lambda>b. b \<noteq> CHR 0x00) (SyscallContext.Comm (ContextSys msg)) else p)"
    and "(Log.NamespaceName log, Log.PodName log, Log.ContainerName log) =
           GetNameFromContainerID mon (ContextCombined.ContainerID msg)"
    and "Log.ContainerID log = ContextCombined.ContainerID msg"
    and "Log.UpdatedTime log = now"
  using assms
  by (auto simp: BuildLogBase_def Let_def slice_to_IndexByte Log_zero_def
           split: if_splits prod.splits sum.splits)

text \<open>
  \<open>BuildLogBase\<close> returns a log unless the exec-path lookup is empty and \<open>comm\<close>
  holds no NUL byte; then the slice expression panics.
\<close>

lemma BuildLogBase_returns:
  "(\<exists>log. BuildLogBase mon now msg = Inr log) \<longleftrightarrow>
     (GetExecPath mon (ContextCombined.ContainerID msg)
        (if EventID (ContextSys msg) = SYS_EXECVE \<or> EventID (ContextSys msg) = SYS_EXECVEAT
         then SyscallContext.PPID (ContextSys msg) else SyscallContext.PID (ContextSys msg)) \<noteq> '''' \<or>
      CHR 0x00 \<in> set (SyscallContext.Comm (ContextSys msg)))"
  by (auto simp: BuildLogBase_def Let_def slice_to_IndexByte
           split: if_splits prod.splits sum.splits)

lemma UpdateLogs_switch_keeps:
  assumes "UpdateLogs_switch mon ks msg log = Some log'"
  shows "Log.Source log' = Log.Source log"
    and "Log.NamespaceName log' = Log.NamespaceName log"
    and "Log.PodName log' = Log.PodName log"
    and "Log.ContainerName log' = Log.ContainerName log"
  using assms
  by (auto simp: UpdateLogs_switch_def Let_def split: event_id.splits if_splits)

lemma UpdateLogs_event_Some:
  "UpdateLogs_event tbl mon now ks msg = Inr (Some log) \<longleftrightarrow>
     (\<exists>base sw. BuildLogBase mon now msg = Inr base \<and>
        UpdateLogs_switch mon ks msg base = Some sw \<and>
        log = sw\<lparr>Log.Result := UpdateLogs_result tbl (Retval (ContextSys msg))\<rparr> \<and>
        LogFeeder mon \<noteq> None)"
  by (auto simp: UpdateLogs_event_def Let_def split: sum.splits option.splits)

lemma UpdateLogs_event_Result:
  assumes "UpdateLogs_event tbl mon now ks msg = Inr (Some log)"
  shows "Log.Result log = UpdateLogs_result tbl (Retval (ContextSys msg))"
  using assms by (auto simp: UpdateLogs_event_Some)

lemma switch_listen:
  assumes "EventID (ContextSys msg) = SYS_LISTEN"
  shows "UpdateLogs_switch mon ks msg log =
           Some (log\<lparr>Log.Operation := ''Network'', Log.Resource := ''syscall=listen'',
                     Log.Data := ''fd='' @ (if length (ContextArgs msg) = 2
                                            then assertInt32Itoa (ContextArgs msg ! 0) else '''')\<rparr>)"
  using assms by (simp add: UpdateLogs_switch_def Let_def)



text \<open>The facts that evaluate the log builder on the example inputs.\<close>

lemmas ex_defs = ex_feeder_def ex_mon_def ex_msg_def ex_tbl_def

lemmas eval_defs = UpdateLogs_event_def BuildLogBase_def Let_def GetNameFromContainerID_def
  GetExecPath_def slice_to_IndexByte UpdateLogs_switch_def UpdateLogs_result_def
  getErrorMessage_def assertInt32Itoa_def assertString_def assertSockAddr_def Itoa_def
  digits_small digits_large Log_zero_def range_map_def List.map_filter_def

subsection \<open>The feeder\<close>

lemma fst_Send_Log:
  "fst (Send_Log lgs log w) = w\<lparr>LogSends := LogSends w @ [(lgs, log, Send_result w (LogStruct.Client lgs))]\<rparr>"
  by (simp add: Send_Log_def)

lemma fst_Send_Message:
  "fst (Send_Message mgs msg w) = w\<lparr>MsgSends := MsgSends w @ [(mgs, msg, Send_result w (MsgStruct.Client mgs))]\<rparr>"
  by (simp add: Send_Message_def)

lemma Send_result_LogSends [simp]: "Send_result (w\<lparr>LogSends := x\<rparr>) = Send_result w"
  by (simp add: Send_result_def fun_eq_iff)

lemma Send_result_MsgSends [simp]: "Send_result (w\<lparr>MsgSends := x\<rparr>) = Send_result w"
  by (simp add: Send_result_def fun_eq_iff)

lemma Send_result_LogQueue [simp]: "Send_result (w\<lparr>LogQueue := x\<rparr>) = Send_result w"
  by (simp add: Send_result_def fun_eq_iff)

lemma Send_result_MsgQueue [simp]: "Send_result (w\<lparr>MsgQueue := x\<rparr>) = Send_result w"
  by (simp add: Send_result_def fun_eq_iff)

text \<open>What the loops do to the state: the queue is emptied, the calls of \<open>Send\<close> are appended.\<close>

lemma sendLogStructs_eq:
  "sendLogStructs log ls w =
     w\<lparr>LogSends := LogSends w @
          map (\<lambda>lgs. (lgs, log, Send_result w (LogStruct.Client lgs)))
              (filter (\<lambda>lgs. filterAccepts (LogStruct.Filter lgs) log) ls)\<rparr>"
proof (induction ls arbitrary: w)
  case Nil
  show ?case by simp
next
  case (Cons lgs rest)
  show ?case
    by (simp add: Cons.IH fst_Send_Log filterAccepts_def)
qed

lemma sendMsgStructs_eq:
  "sendMsgStructs msg ms w =
     w\<lparr>MsgSends := MsgSends w @ map (\<lambda>mgs. (mgs, msg, Send_result w (MsgStruct.Client mgs))) ms\<rparr>"
proof (induction ms arbitrary: w)
  case Nil
  show ?case by simp
next
  case (Cons mgs rest)
  show ?case
    by (simp add: Cons.IH fst_Send_Message)
qed

lemma drainLogQueue_eq:
  "drainLogQueue ls w =
     w\<lparr>LogQueue := [],
       LogSends := LogSends w @
          concat (map (\<lambda>log. map (\<lambda>lgs. (lgs, log, Send_result w (LogStruct.Client lgs)))
                                (filter (\<lambda>lgs. filterAccepts (LogStruct.Filter lgs) log) ls))
                      (LogQueue w))\<rparr>"
proof (induction "LogQueue w" arbitrary: w)
  case Nil
  then have "LogQueue w = []" by simp
  then show ?case
    by (subst drainLogQueue.simps) simp
next
  case (Cons log rest)
  then have q: "LogQueue w = log # rest" by simp
  have "rest = LogQueue (sendLogStructs log ls (w\<lparr>LogQueue := rest\<rparr>))" by simp
  from Cons.hyps(1) [OF this] q show ?case
    by (subst drainLogQueue.simps) (simp add: sendLogStructs_eq)
qed

lemma drainMsgQueue_eq:
  "drainMsgQueue ms w =
     w\<lparr>MsgQueue := [],
       MsgSends := MsgSends w @
          concat (map (\<lambda>msg. map (\<lambda>mgs. (mgs, msg, Send_result w (MsgStruct.Client mgs))) ms)
                      (MsgQueue w))\<rparr>"
proof (induction "MsgQueue w" arbitrary: w)
  case Nil
  then have "MsgQueue w = []" by simp
  then show ?case
    by (subst drainMsgQueue.simps) simp
next
  case (Cons msg rest)
  then have q: "MsgQueue w = msg # rest" by simp
  have "rest = MsgQueue (sendMsgStructs msg ms (w\<lparr>MsgQueue := rest\<rparr>))" by simp
  from Cons.hyps(1) [OF this] q show ?case
    by (subst drainMsgQueue.simps) (simp add: sendMsgStructs_eq)
qed

lemma WatchLogs_pass_eq:
  "WatchLogs_pass ks w =
     w\<lparr>LogQueue := [],
       LogSends := LogSends w @
          concat (map (\<lambda>log. map (\<lambda>lgs. (lgs, log, Send_result w (LogStruct.Client lgs)))
                                (filter (\<lambda>lgs. filterAccepts (LogStruct.Filter lgs) log)
                                        (getLogStructs ks (service w))))
                      (LogQueue w))\<rparr>"
  by (simp add: WatchLogs_pass_def drainLogQueue_eq)

lemma WatchMessages_pass_eq:
  "WatchMessages_pass ks w =
     w\<lparr>MsgQueue := [],
       MsgSends := MsgSends w @
          concat (map (\<lambda>msg. map (\<lambda>mgs. (mgs, msg, Send_result w (MsgStruct.Client mgs)))
                                (getMsgStructs ks (service w)))
                      (MsgQueue w))\<rparr>"
  by (simp add: WatchMessages_pass_def drainMsgQueue_eq)

text \<open>Every call of \<open>Send\<close> that a step or a run adds passed the filter chain.\<close>

lemma feeder_step_sends:
  assumes "e \<in> set (LogSends (feeder_step w ev))"
  shows "e \<in> set (LogSends w) \<or> filterAccepts (LogStruct.Filter (fst e)) (fst (snd e))"
  using assms
  by (cases ev) (auto simp: WatchLogs_pass_eq split: if_splits)

lemma feeder_run_sends:
  assumes "e \<in> set (LogSends (feeder_run w evs))"
  shows "e \<in> set (LogSends w) \<or> filterAccepts (LogStruct.Filter (fst e)) (fst (snd e))"
  using assms unfolding feeder_run_def
proof (induction evs arbitrary: w)
  case Nil
  then show ?case by simp
next
  case (Cons ev evs)
  from Cons.IH [of "feeder_step w ev"] Cons.prems
  have "e \<in> set (LogSends (feeder_step w ev)) \<or> filterAccepts (LogStruct.Filter (fst e)) (fst (snd e))"
    by simp
  then show ?case using feeder_step_sends by blast
qed

lemma getMsgStructs_refilter:
  "getMsgStructs ks (ls\<lparr>MsgStructs := \<lambda>k. map_option f (MsgStructs ls k)\<rparr>) = map f (getMsgStructs ks ls)"
  by (simp add: getMsgStructs_def range_map_map_option comp_def)

lemma getMsgStructs_registered:
  assumes "range_order ks (MsgStructs ls)" and "MsgStructs ls uid = Some mgs"
  shows "mgs \<in> set (getMsgStructs ks ls)"
  using range_map_values [OF assms(1)] assms(2)
  unfolding getMsgStructs_def by (auto simp: ran_def)

lemma getLogStructs_registered:
  assumes "range_order ks (LogStructs ls)" and "LogStructs ls uid = Some lgs"
  shows "lgs \<in> set (getLogStructs ks ls)"
  using range_map_values [OF assms(1)] assms(2)
  unfolding getLogStructs_def by (auto simp: ran_def)

lemma WatchMessages_pass_sends:
  assumes "range_order ks (MsgStructs (service w))" and "MsgStructs (service w) uid = Some mgs"
      and "msg \<in> set (MsgQueue w)"
  shows "(mgs, msg, if Broken w (MsgStruct.Client mgs) then Some StreamError else None)
           \<in> set (MsgSends (WatchMessages_pass ks w))"
proof -
  have "(mgs, msg, Send_result w (MsgStruct.Client mgs)) \<in> set (MsgSends (WatchMessages_pass ks w))"
    using getMsgStructs_registered [OF assms(1,2)] assms(3)
    by (auto simp: WatchMessages_pass_eq)
  then show ?thesis by (simp add: Send_result_def)
qed

lemma WatchLogs_pass_sends:
  assumes "range_order ks (LogStructs (service w))" and "LogStructs (service w) uid = Some lgs"
      and "log \<in> set (LogQueue w)" and "filterAccepts (LogStruct.Filter lgs) log"
  shows "(lgs, log, if Broken w (LogStruct.Client lgs) then Some StreamError else None)
           \<in> set (LogSends (WatchLogs_pass ks w))"
proof -
  have "(lgs, log, Send_result w (LogStruct.Client lgs)) \<in> set (LogSends (WatchLogs_pass ks w))"
    using getLogStructs_registered [OF assms(1,2)] assms(3,4)
    by (auto simp: WatchLogs_pass_eq)
  then show ?thesis by (simp add: Send_result_def)
qed

text \<open>A log whose \<open>UpdatedTime\<close> is not empty after decoration is appended to the queue.\<close>

lemma PushLog_appends:
  assumes "Log.UpdatedTime (UpdateMatchedPolicy fd log) \<noteq> ''''"
  shows "length (LogQueue (fst (PushLog UpdateMatchedPolicy Marshal fd log w))) = Suc (length (LogQueue w))"
  using assms by (simp add: PushLog_def Let_def StrToFile_def)

text \<open>The facts that evaluate the feeder on the example inputs.\<close>

lemmas ex_feed_defs = ex_world_def ex_pb_log_def ex_pb_msg_def ex_sub_def ex_msub_def pb_Log_zero_def

lemmas feed_defs = feeder_run_def WatchLogs_pass_eq WatchMessages_pass_eq getLogStructs_def
  getMsgStructs_def range_map_def List.map_filter_def addLogStruct_def addMsgStruct_def
  removeLogStruct_def filterAccepts_def Send_result_def range_order_def

text \<open>
  The example run: the unfiltered subscriber gets both logs in order, the \<open>policy\<close>
  subscriber the policy log only, the subscriber with the unknown filter nothing.
\<close>

lemma ex_run_sends:
  "map (\<lambda>(lgs, log, err). (LogStruct.Client lgs, pb_Log.Type log, err))
       (LogSends (feeder_run (ex_world Map.empty Map.empty (\<lambda>c. False) [] []) ex_run)) =
     [(1, ''ContainerLog'', None), (1, ''MatchedPolicy'', None), (2, ''MatchedPolicy'', None)]"
  by (simp add: feed_defs ex_feed_defs ex_run_def)

lemma PushLog_stdout_example:
  "PushLog ex_matcher (\<lambda>log. ''{}'') (ex_feeder\<lparr>output' := ''stdout''\<rparr>)
       (Log_zero\<lparr>Log.UpdatedTime := ''t0''\<rparr>) (ex_world Map.empty Map.empty (\<lambda>c. False) [] []) =
     ((ex_world Map.empty Map.empty (\<lambda>c. False) [] [])
        \<lparr>LogQueue := [ex_pb_log ''ContainerLog''], Stdout := [''{}'']\<rparr>, None)"
  by (simp add: PushLog_def ex_matcher_def ex_feeder_def Let_def ex_feed_defs Log_zero_def)

section \<open>The claims\<close>

subsection \<open>C1: filter correctness of the log stream\<close>

text \<open>
  Claim C1. Every log that \<open>WatchLogs\<close> sends to a subscriber with filter \<open>F\<close> satisfies
  \<open>F = ""\<close>, or \<open>F = "policy"\<close> and the log's type is \<open>MatchedPolicy\<close> or
  \<open>MatchedHostPolicy\<close>, or \<open>F = "system"\<close> and the type is \<open>ContainerLog\<close> or
  \<open>HostLog\<close>; and nothing is ever sent to a subscriber whose filter is none of the three.
  Stated over every run of the log side that starts with nothing sent: each recorded call
  of \<open>Send\<close> (delivered or failed) satisfies the condition, so its subscriber's filter is
  one of the three.
\<close>

theorem WatchLogs_sends_respect_filter:
  assumes "LogSends w = []"
      and "(lgs, log, err) \<in> set (LogSends (feeder_run w evs))"
  shows "(LogStruct.Filter lgs = '''' \<or>
          LogStruct.Filter lgs = ''policy'' \<and>
            (pb_Log.Type log = ''MatchedPolicy'' \<or> pb_Log.Type log = ''MatchedHostPolicy'') \<or>
          LogStruct.Filter lgs = ''system'' \<and>
            (pb_Log.Type log = ''ContainerLog'' \<or> pb_Log.Type log = ''HostLog'')) \<and>
         LogStruct.Filter lgs \<in> {'''', ''policy'', ''system''}"
  using feeder_run_sends [OF assms(2)] assms(1)
  by (auto simp: filterAccepts_def)

text \<open>
  Witness for C1: in the example run the policy log reaches the \<open>policy\<close> subscriber.
\<close>

theorem WatchLogs_sends_respect_filter_witness:
  "LogSends (ex_world Map.empty Map.empty (\<lambda>c. False) [] []) = [] \<and>
   (ex_sub 2 ''policy'', ex_pb_log ''MatchedPolicy'', None)
      \<in> set (LogSends (feeder_run (ex_world Map.empty Map.empty (\<lambda>c. False) [] []) ex_run)) \<and>
   LogStruct.Filter (ex_sub 2 ''policy'') = ''policy'' \<and>
   pb_Log.Type (ex_pb_log ''MatchedPolicy'') = ''MatchedPolicy''"
proof -
  have h1: "LogSends (ex_world Map.empty Map.empty (\<lambda>c. False) [] []) = []"
    by (simp add: ex_world_def)
  have h2: "(ex_sub 2 ''policy'', ex_pb_log ''MatchedPolicy'', None)
      \<in> set (LogSends (feeder_run (ex_world Map.empty Map.empty (\<lambda>c. False) [] []) ex_run))"
    by (simp add: feed_defs ex_feed_defs ex_run_def)
  from WatchLogs_sends_respect_filter [OF h1 h2] h1 h2 show ?thesis
    by (simp add: ex_sub_def ex_pb_log_def)
qed

subsection \<open>C2: result classification\<close>

text \<open>
  Claim C2, as stated, has the unknown-errno text render the code that was looked up in
  the table, which is \<open>-retval\<close>. The code formats \<open>retval\<close> itself: for
  \<open>retval = -9999\<close> and a table without 9999 the result is \<open>Unknown (-9999)\<close>, not
  \<open>Unknown (9999)\<close>.
\<close>

theorem UpdateLogs_unknown_errno_renders_retval:
  "(case UpdateLogs_event ex_tbl (ex_mon False) ''t0'' []
           (ex_msg ''c1'' 1 7 SYS_CLOSE [ArgInt32 3] (- 9999)) of
      Inr (Some log) \<Rightarrow> Log.Result log = ''Unknown (-9999)'' \<and> Log.Result log \<noteq> ''Unknown (9999)''
    | _ \<Rightarrow> False)"
  by (simp add: eval_defs ex_defs)

text \<open>
  Claim C2, amended. For every log handed to \<open>PushLog\<close>: if \<open>retval \<ge> 0\<close> the result is
  \<open>Passed\<close>; if \<open>retval < 0\<close> and the errno table maps \<open>-retval\<close> to a (non-empty) name,
  the result is that name; if \<open>retval < 0\<close> and \<open>-retval\<close> is not in the table, the result
  is \<open>Unknown (<n>)\<close> where \<open><n>\<close> is the signed decimal rendering of \<open>retval\<close> itself.
\<close>

theorem UpdateLogs_result_classification:
  assumes "UpdateLogs_event tbl mon now ks msg = Inr (Some log)"
  shows "(0 \<le> Retval (ContextSys msg) \<longrightarrow> Log.Result log = ''Passed'') \<and>
         (Retval (ContextSys msg) < 0 \<longrightarrow>
            (\<forall>name. tbl (- Retval (ContextSys msg)) = Some name \<and> name \<noteq> '''' \<longrightarrow> Log.Result log = name) \<and>
            (tbl (- Retval (ContextSys msg)) = None \<longrightarrow>
               Log.Result log = ''Unknown ('' @ Itoa (Retval (ContextSys msg)) @ '')''))"
  using UpdateLogs_event_Result [OF assms]
  by (auto simp: UpdateLogs_result_def getErrorMessage_def Let_def)

text \<open>
  Witness for C2: a \<open>close\<close> event with \<open>retval\<close> 0, -13 and -9999, against a table that
  maps 13 to \<open>EACCES\<close>.
\<close>

theorem UpdateLogs_result_classification_witness:
  "(case UpdateLogs_event ex_tbl (ex_mon False) ''t0'' [] (ex_msg ''c1'' 1 7 SYS_CLOSE [ArgInt32 3] 0) of
      Inr (Some log) \<Rightarrow> Log.Result log = ''Passed'' | _ \<Rightarrow> False) \<and>
   (case UpdateLogs_event ex_tbl (ex_mon False) ''t0'' [] (ex_msg ''c1'' 1 7 SYS_CLOSE [ArgInt32 3] (- 13)) of
      Inr (Some log) \<Rightarrow> Log.Result log = ''EACCES'' | _ \<Rightarrow> False) \<and>
   (case UpdateLogs_event ex_tbl (ex_mon False) ''t0'' [] (ex_msg ''c1'' 1 7 SYS_CLOSE [ArgInt32 3] (- 9999)) of
      Inr (Some log) \<Rightarrow> Log.Result log = ''Unknown (-9999)'' | _ \<Rightarrow> False)"
proof -
  obtain l1 where h1: "UpdateLogs_event ex_tbl (ex_mon False) ''t0'' []
      (ex_msg ''c1'' 1 7 SYS_CLOSE [ArgInt32 3] 0) = Inr (Some l1)"
    by (simp add: eval_defs ex_defs)
  obtain l2 where h2: "UpdateLogs_event ex_tbl (ex_mon False) ''t0'' []
      (ex_msg ''c1'' 1 7 SYS_CLOSE [ArgInt32 3] (- 13)) = Inr (Some l2)"
    by (simp add: eval_defs ex_defs)
  obtain l3 where h3: "UpdateLogs_event ex_tbl (ex_mon False) ''t0'' []
      (ex_msg ''c1'' 1 7 SYS_CLOSE [ArgInt32 3] (- 9999)) = Inr (Some l3)"
    by (simp add: eval_defs ex_defs)
  have "Log.Result l1 = ''Passed''"
    using UpdateLogs_result_classification [OF h1] by (simp add: ex_msg_def)
  moreover have "Log.Result l2 = ''EACCES''"
    using UpdateLogs_result_classification [OF h2] by (simp add: ex_msg_def ex_tbl_def)
  moreover have "Log.Result l3 = ''Unknown (-9999)''"
    using UpdateLogs_result_classification [OF h3]
    by (simp add: ex_msg_def ex_tbl_def Itoa_def digits_small digits_large)
  ultimately show ?thesis using h1 h2 h3 by simp
qed

subsection \<open>C3: the auditd drop\<close>

text \<open>
  Claim C3, as stated, has every event other than an \<open>open\<close> or \<open>openat\<close> denied under
  auditd produce a log. The \<open>switch\<close> ends in \<open>default: continue\<close>: an \<open>execve\<close> event,
  with auditd disabled and a feeder attached, produces none.
\<close>

theorem UpdateLogs_execve_not_emitted:
  "UpdateLogs_event ex_tbl (ex_mon False) ''t0'' []
     (ex_msg ''c1'' 12 99 SYS_EXECVE [ArgString ''/bin/sh''] 0) = Inr None"
  by (simp add: eval_defs ex_defs)

text \<open>
  Claim C3, amended. When \<open>BuildLogBase\<close> has built the base log and a log feeder is
  attached: an \<open>open\<close> or \<open>openat\<close> event with \<open>retval = -EACCES\<close> under the auditd
  option produces no log; every other event whose id is one of \<open>open\<close>, \<open>openat\<close>,
  \<open>close\<close>, \<open>socket\<close>, \<open>connect\<close>, \<open>accept\<close>, \<open>bind\<close>, \<open>listen\<close> (the same
  \<open>open\<close> and \<open>openat\<close> events with auditd disabled among them) has its log handed to
  \<open>PushLog\<close>; an event with any other id produces no log.
\<close>

theorem UpdateLogs_emits_iff:
  assumes "BuildLogBase mon now msg = Inr base" and "LogFeeder mon \<noteq> None"
  shows "if EventID (ContextSys msg) \<in> {SYS_OPEN, SYS_OPENAT, SYS_CLOSE, SYS_SOCKET,
                                          SYS_CONNECT, SYS_ACCEPT, SYS_BIND, SYS_LISTEN} \<and>
            \<not> (EnableAuditd mon \<and> EventID (ContextSys msg) \<in> {SYS_OPEN, SYS_OPENAT} \<and>
               Retval (ContextSys msg) = PERMISSION_DENIED)
         then \<exists>log. UpdateLogs_event tbl mon now ks msg = Inr (Some log)
         else UpdateLogs_event tbl mon now ks msg = Inr None"
  using assms
  by (cases "EventID (ContextSys msg)") (simp_all add: UpdateLogs_event_def UpdateLogs_switch_def Let_def)

text \<open>
  Witness for C3: an \<open>openat\<close> of \<open>/etc/passwd\<close> returning -13 is dropped with auditd
  enabled and handed on with auditd disabled.
\<close>

theorem UpdateLogs_emits_iff_witness:
  "LogFeeder (ex_mon True) \<noteq> None \<and>
   UpdateLogs_event ex_tbl (ex_mon True) ''t0'' []
     (ex_msg ''c1'' 1 7 SYS_OPENAT [ArgInt32 (- 100), ArgString ''/etc/passwd'', ArgString ''O_RDONLY''] (- 13))
       = Inr None \<and>
   (case UpdateLogs_event ex_tbl (ex_mon False) ''t0'' []
     (ex_msg ''c1'' 1 7 SYS_OPENAT [ArgInt32 (- 100), ArgString ''/etc/passwd'', ArgString ''O_RDONLY''] (- 13)) of
      Inr (Some log) \<Rightarrow> True | _ \<Rightarrow> False)"
proof -
  let ?msg = "ex_msg ''c1'' 1 7 SYS_OPENAT [ArgInt32 (- 100), ArgString ''/etc/passwd'', ArgString ''O_RDONLY''] (- 13)"
  obtain b1 where h1: "BuildLogBase (ex_mon True) ''t0'' ?msg = Inr b1"
    by (simp add: eval_defs ex_defs)
  obtain b2 where h2: "BuildLogBase (ex_mon False) ''t0'' ?msg = Inr b2"
    by (simp add: eval_defs ex_defs)
  have f1: "LogFeeder (ex_mon True) \<noteq> None" and f2: "LogFeeder (ex_mon False) \<noteq> None"
    by (simp_all add: ex_mon_def)
  have "UpdateLogs_event ex_tbl (ex_mon True) ''t0'' [] ?msg = Inr None"
    using UpdateLogs_emits_iff [OF h1 f1, of ex_tbl "[]"]
    by (simp add: ex_msg_def ex_mon_def PERMISSION_DENIED_def)
  moreover have "\<exists>log. UpdateLogs_event ex_tbl (ex_mon False) ''t0'' [] ?msg = Inr (Some log)"
    using UpdateLogs_emits_iff [OF h2 f2, of ex_tbl "[]"]
    by (simp add: ex_msg_def ex_mon_def)
  ultimately show ?thesis using f1 by auto
qed

subsection \<open>C4: the source of a log\<close>

text \<open>
  Claim C4. For an \<open>execve\<close> or \<open>execveat\<close> event the built log's \<open>Source\<close> is the
  tracked exec path of the event's ppid in the event's container, for every other event
  that of the event's pid; when that lookup is empty, \<open>Source\<close> is the \<open>comm\<close> field cut
  at its first NUL byte. The switch of \<open>UpdateLogs\<close> leaves \<open>Source\<close> as built.
  (\<open>BuildLogBase_returns\<close> says when a log is built.)
\<close>

theorem BuildLogBase_source:
  assumes "BuildLogBase mon now msg = Inr log"
  shows "Log.Source log =
           (let p = GetExecPath mon (ContextCombined.ContainerID msg)
                      (if EventID (ContextSys msg) = SYS_EXECVE \<or> EventID (ContextSys msg) = SYS_EXECVEAT
                       then SyscallContext.PPID (ContextSys msg) else SyscallContext.PID (ContextSys msg))
            in if p = '''' then takeWhile (\<lambda>b. b \<noteq> CHR 0x00) (SyscallContext.Comm (ContextSys msg)) else p) \<and>
         (\<forall>tbl ks log'. UpdateLogs_event tbl mon now ks msg = Inr (Some log') \<longrightarrow>
            Log.Source log' = Log.Source log)"
  using BuildLogBase_Inr(1) [OF assms] assms UpdateLogs_switch_keeps(1)
  by (auto simp: UpdateLogs_event_Some)

text \<open>
  Witness for C4: an \<open>execve\<close> by pid 99 with ppid 12 has the parent's path as source;
  a \<open>close\<close> by pid 12 has its own; a \<open>close\<close> by the untracked pid 7 falls back to
  \<open>comm\<close>.
\<close>

theorem BuildLogBase_source_witness:
  "(case BuildLogBase (ex_mon False) ''t0'' (ex_msg ''c1'' 12 99 SYS_EXECVE [ArgString ''/bin/sh''] 0) of
      Inr log \<Rightarrow> Log.Source log = ''/usr/sbin/cron'' | Inl p \<Rightarrow> False) \<and>
   (case BuildLogBase (ex_mon False) ''t0'' (ex_msg ''c1'' 1 12 SYS_CLOSE [ArgInt32 3] 0) of
      Inr log \<Rightarrow> Log.Source log = ''/usr/sbin/cron'' | Inl p \<Rightarrow> False) \<and>
   (case BuildLogBase (ex_mon False) ''t0'' (ex_msg ''c1'' 1 7 SYS_CLOSE [ArgInt32 3] 0) of
      Inr log \<Rightarrow> Log.Source log = ''nginx'' | Inl p \<Rightarrow> False)"
proof -
  obtain l1 where h1: "BuildLogBase (ex_mon False) ''t0''
      (ex_msg ''c1'' 12 99 SYS_EXECVE [ArgString ''/bin/sh''] 0) = Inr l1"
    by (simp add: eval_defs ex_defs)
  obtain l2 where h2: "BuildLogBase (ex_mon False) ''t0''
      (ex_msg ''c1'' 1 12 SYS_CLOSE [ArgInt32 3] 0) = Inr l2"
    by (simp add: eval_defs ex_defs)
  obtain l3 where h3: "BuildLogBase (ex_mon False) ''t0''
      (ex_msg ''c1'' 1 7 SYS_CLOSE [ArgInt32 3] 0) = Inr l3"
    by (simp add: eval_defs ex_defs)
  have "Log.Source l1 = ''/usr/sbin/cron''"
    using BuildLogBase_source [OF h1] by (simp add: ex_defs GetExecPath_def)
  moreover have "Log.Source l2 = ''/usr/sbin/cron''"
    using BuildLogBase_source [OF h2] by (simp add: ex_defs GetExecPath_def)
  moreover have "Log.Source l3 = ''nginx''"
    using BuildLogBase_source [OF h3] by (simp add: ex_defs GetExecPath_def)
  ultimately show ?thesis using h1 h2 h3 by simp
qed

subsection \<open>C5: a failed send\<close>

text \<open>
  Claim C5, as stated, has a subscriber removed from the subscriber table when a send to
  it fails. Neither loop looks at the error that \<open>Send\<close> returns: with two unfiltered
  subscribers, the second on a broken stream, a pass sends the log to the second, the
  send fails, and the second is still in the table after the pass.
\<close>

theorem WatchLogs_failed_subscriber_stays:
  "(ex_sub 2 '''', ex_pb_log ''ContainerLog'', Some StreamError)
      \<in> set (LogSends (WatchLogs_pass [''a'', ''b'']
            (ex_world Map.empty [''a'' \<mapsto> ex_sub 1 '''', ''b'' \<mapsto> ex_sub 2 ''''] (\<lambda>c. c = 2) []
               [ex_pb_log ''ContainerLog'']))) \<and>
   LogStructs (service (WatchLogs_pass [''a'', ''b'']
            (ex_world Map.empty [''a'' \<mapsto> ex_sub 1 '''', ''b'' \<mapsto> ex_sub 2 ''''] (\<lambda>c. c = 2) []
               [ex_pb_log ''ContainerLog'']))) ''b'' = Some (ex_sub 2 '''')"
  by (simp add: feed_defs ex_feed_defs)

text \<open>
  Claim C5, amended. A pass of the \<open>WatchLogs\<close> or \<open>WatchMessages\<close> loop leaves both
  subscriber tables as they were, whatever the sends return (a subscriber is removed only
  by the deferred removal when its own call returns); and a failed send does not prevent
  the same item from being sent to every other matching subscriber: for every registered
  subscriber and every queued item that passes its filter (every queued message, on the
  message side), \<open>Send\<close> is called, and it returns nil unless that subscriber's own
  stream is broken.
\<close>

theorem Watch_send_failure_keeps_table:
  "service (WatchLogs_pass ks w) = service w \<and>
   service (WatchMessages_pass ks' w) = service w \<and>
   (range_order ks (LogStructs (service w)) \<and> LogStructs (service w) uid = Some lgs \<and>
    log \<in> set (LogQueue w) \<and>
    (LogStruct.Filter lgs = '''' \<or>
     LogStruct.Filter lgs = ''policy'' \<and>
       (pb_Log.Type log = ''MatchedPolicy'' \<or> pb_Log.Type log = ''MatchedHostPolicy'') \<or>
     LogStruct.Filter lgs = ''system'' \<and>
       (pb_Log.Type log = ''ContainerLog'' \<or> pb_Log.Type log = ''HostLog'')) \<longrightarrow>
      (lgs, log, if Broken w (LogStruct.Client lgs) then Some StreamError else None)
        \<in> set (LogSends (WatchLogs_pass ks w))) \<and>
   (range_order ks' (MsgStructs (service w)) \<and> MsgStructs (service w) uid' = Some mgs \<and>
    msg \<in> set (MsgQueue w) \<longrightarrow>
      (mgs, msg, if Broken w (MsgStruct.Client mgs) then Some StreamError else None)
        \<in> set (MsgSends (WatchMessages_pass ks' w)))"
proof -
  have a: "service (WatchLogs_pass ks w) = service w"
    by (simp add: WatchLogs_pass_eq)
  have b: "service (WatchMessages_pass ks' w) = service w"
    by (simp add: WatchMessages_pass_eq)
  show ?thesis
    using a b WatchLogs_pass_sends WatchMessages_pass_sends unfolding filterAccepts_def by blast
qed

text \<open>
  Witness for C5: with the stream of subscriber 2 broken, the log still goes out to
  subscriber 1 and the message to the message subscriber.
\<close>

theorem Watch_send_failure_keeps_table_witness:
  "range_order [''a'', ''b''] [''a'' \<mapsto> ex_sub 1 '''', ''b'' \<mapsto> ex_sub 2 ''''] \<and>
   range_order [''m''] [''m'' \<mapsto> ex_msub 3 ''''] \<and>
   (ex_sub 1 '''', ex_pb_log ''ContainerLog'', None)
      \<in> set (LogSends (WatchLogs_pass [''a'', ''b'']
            (ex_world [''m'' \<mapsto> ex_msub 3 ''''] [''a'' \<mapsto> ex_sub 1 '''', ''b'' \<mapsto> ex_sub 2 '''']
               (\<lambda>c. c = 2) [ex_pb_msg] [ex_pb_log ''ContainerLog'']))) \<and>
   (ex_msub 3 '''', ex_pb_msg, None)
      \<in> set (MsgSends (WatchMessages_pass [''m'']
            (ex_world [''m'' \<mapsto> ex_msub 3 ''''] [''a'' \<mapsto> ex_sub 1 '''', ''b'' \<mapsto> ex_sub 2 '''']
               (\<lambda>c. c = 2) [ex_pb_msg] [ex_pb_log ''ContainerLog''])))"
proof -
  let ?w = "ex_world [''m'' \<mapsto> ex_msub 3 ''''] [''a'' \<mapsto> ex_sub 1 '''', ''b'' \<mapsto> ex_sub 2 '''']
               (\<lambda>c. c = 2) [ex_pb_msg] [ex_pb_log ''ContainerLog'']"
  have h1: "range_order [''a'', ''b''] [''a'' \<mapsto> ex_sub 1 '''', ''b'' \<mapsto> ex_sub 2 '''']"
    by (auto simp: range_order_def)
  have h2: "range_order [''m''] [''m'' \<mapsto> ex_msub 3 '''']"
    by (auto simp: range_order_def)
  from Watch_send_failure_keeps_table
         [of "[''a'', ''b'']" ?w "[''m'']" "''a''" "ex_sub 1 ''''" "ex_pb_log ''ContainerLog''"
             "''m''" "ex_msub 3 ''''" ex_pb_msg] h1 h2
  show ?thesis
    by (simp add: ex_world_def ex_sub_def ex_msub_def)
qed

subsection \<open>C6: the shape of a listen event\<close>

text \<open>
  Claim C6. For every \<open>listen\<close> event that carries a file descriptor \<open>fd\<close>, with the
  number of arguments the event id determines, the log handed to \<open>PushLog\<close> has
  \<open>Operation = "Network"\<close>, \<open>Resource = "syscall=listen"\<close> and \<open>Data = "fd=<FD>"\<close>,
  where \<open><FD>\<close> is the decimal rendering of \<open>fd\<close>. The \<open>listen\<close> case of
  \<open>UpdateLogs\<close> fixes the number of arguments of a \<open>listen\<close> event at two (the
  descriptor and the backlog of the system call) and reads the descriptor, an \<open>int32\<close>,
  from the first.
\<close>

theorem UpdateLogs_listen_shape:
  assumes "EventID (ContextSys msg) = SYS_LISTEN"
      and "ContextArgs msg = [ArgInt32 fd, a]"
      and "UpdateLogs_event tbl mon now ks msg = Inr (Some log)"
  shows "Log.Operation log = ''Network'' \<and> Log.Resource log = ''syscall=listen'' \<and>
         Log.Data log = ''fd='' @ Itoa (sint fd)"
  using assms(2,3) by (auto simp: UpdateLogs_event_Some switch_listen [OF assms(1)] assertInt32Itoa_def)

text \<open>Witness for C6: \<open>listen(3, 128)\<close>.\<close>

theorem UpdateLogs_listen_shape_witness:
  "EventID (ContextSys (ex_msg ''c1'' 1 7 SYS_LISTEN [ArgInt32 3, ArgInt32 128] 0)) = SYS_LISTEN \<and>
   ContextArgs (ex_msg ''c1'' 1 7 SYS_LISTEN [ArgInt32 3, ArgInt32 128] 0) = [ArgInt32 3, ArgInt32 128] \<and>
   (case UpdateLogs_event ex_tbl (ex_mon False) ''t0'' []
           (ex_msg ''c1'' 1 7 SYS_LISTEN [ArgInt32 3, ArgInt32 128] 0) of
      Inr (Some log) \<Rightarrow> Log.Operation log = ''Network'' \<and> Log.Resource log = ''syscall=listen'' \<and>
                        Log.Data log = ''fd=3''
    | _ \<Rightarrow> False)"
proof -
  let ?msg = "ex_msg ''c1'' 1 7 SYS_LISTEN [ArgInt32 3, ArgInt32 128] 0"
  have e: "EventID (ContextSys ?msg) = SYS_LISTEN"
    by (simp add: ex_msg_def)
  have a: "ContextArgs ?msg = [ArgInt32 3, ArgInt32 128]"
    by (simp add: ex_msg_def)
  obtain l where h: "UpdateLogs_event ex_tbl (ex_mon False) ''t0'' [] ?msg = Inr (Some l)"
    by (simp add: eval_defs ex_defs)
  have "Log.Operation l = ''Network'' \<and> Log.Resource l = ''syscall=listen'' \<and> Log.Data l = ''fd=3''"
    using UpdateLogs_listen_shape [OF e a h]
    by (simp add: Itoa_def digits_small)
  then show ?thesis using e a h by simp
qed

text \<open>
  Outside that shape the case leaves the descriptor empty: whenever a \<open>listen\<close> event
  does not have exactly two arguments, \<open>Data\<close> is \<open>fd=\<close>, as for the one-argument
  event \<open>listen(3)\<close>.
\<close>

lemma listen_other_arity:
  assumes "EventID (ContextSys msg) = SYS_LISTEN"
      and "length (ContextArgs msg) \<noteq> 2"
      and "UpdateLogs_event tbl mon now ks msg = Inr (Some log)"
  shows "Log.Data log = ''fd=''"
  using assms(2,3) by (auto simp: UpdateLogs_event_Some switch_listen [OF assms(1)])

lemma listen_one_arg_example:
  "(case UpdateLogs_event ex_tbl (ex_mon False) ''t0'' [] (ex_msg ''c1'' 1 7 SYS_LISTEN [ArgInt32 3] 0) of
      Inr (Some log) \<Rightarrow> Log.Data log = ''fd=''
    | _ \<Rightarrow> False)"
  by (simp add: eval_defs ex_defs)

subsection \<open>C7: the resource of connect, accept and bind\<close>




subsection \<open>C8: attribution\<close>

text \<open>
  Claim C8. When the event's container id is in the container registry, the built log's
  namespace, pod and container names are the registry entry's namespace, container-group
  and container names; when it is absent, all three are the empty string, and no error
  is raised: \<open>GetNameFromContainerID\<close> returns the empty strings, and whether
  \<open>BuildLogBase\<close> returns a log does not depend on the registry at all. The switch of
  \<open>UpdateLogs\<close> leaves the three fields as built.
\<close>

theorem BuildLogBase_attribution:
  "(\<forall>val. Containers mon cid = Some val \<longrightarrow>
      GetNameFromContainerID mon cid =
        (Container.NamespaceName val, ContainerGroupName val, Container.ContainerName val)) \<and>
   (Containers mon cid = None \<longrightarrow> GetNameFromContainerID mon cid = ('''', '''', '''')) \<and>
   (\<forall>log. BuildLogBase mon now msg = Inr log \<longrightarrow>
      (Log.NamespaceName log, Log.PodName log, Log.ContainerName log) =
        GetNameFromContainerID mon (ContextCombined.ContainerID msg) \<and>
      (\<forall>tbl ks log'. UpdateLogs_event tbl mon now ks msg = Inr (Some log') \<longrightarrow>
         (Log.NamespaceName log', Log.PodName log', Log.ContainerName log') =
           (Log.NamespaceName log, Log.PodName log, Log.ContainerName log))) \<and>
   (\<forall>cs. isl (BuildLogBase (mon\<lparr>Containers := cs\<rparr>) now msg) = isl (BuildLogBase mon now msg))"
proof -
  have a: "GetNameFromContainerID mon cid =
        (Container.NamespaceName val, ContainerGroupName val, Container.ContainerName val)"
    if "Containers mon cid = Some val" for val
    using that by (simp add: GetNameFromContainerID_def)
  have b: "GetNameFromContainerID mon cid = ('''', '''', '''')" if "Containers mon cid = None"
    using that by (simp add: GetNameFromContainerID_def)
  have c: "(Log.NamespaceName log, Log.PodName log, Log.ContainerName log) =
        GetNameFromContainerID mon (ContextCombined.ContainerID msg)"
    if "BuildLogBase mon now msg = Inr log" for log
    using BuildLogBase_Inr(2) [OF that] .
  have d: "(Log.NamespaceName log', Log.PodName log', Log.ContainerName log') =
           (Log.NamespaceName log, Log.PodName log, Log.ContainerName log)"
    if "BuildLogBase mon now msg = Inr log" and "UpdateLogs_event tbl mon now ks msg = Inr (Some log')"
    for log tbl ks log'
    using that UpdateLogs_switch_keeps(2,3,4) by (auto simp: UpdateLogs_event_Some)
  have e: "isl (BuildLogBase (mon\<lparr>Containers := cs\<rparr>) now msg) = isl (BuildLogBase mon now msg)" for cs
    by (simp add: BuildLogBase_def Let_def GetExecPath_def split: prod.splits sum.splits)
  show ?thesis using a b c d e by blast
qed

text \<open>
  Witness for C8: an event from the registered container \<open>c1\<close> and one from the
  unregistered \<open>c9\<close>.
\<close>

theorem BuildLogBase_attribution_witness:
  "Containers (ex_mon False) ''c1'' \<noteq> None \<and>
   (case BuildLogBase (ex_mon False) ''t0'' (ex_msg ''c1'' 1 7 SYS_CLOSE [ArgInt32 3] 0) of
      Inr log \<Rightarrow> (Log.NamespaceName log, Log.PodName log, Log.ContainerName log) = (''ns1'', ''web'', ''nginx'')
    | Inl p \<Rightarrow> False) \<and>
   Containers (ex_mon False) ''c9'' = None \<and>
   (case BuildLogBase (ex_mon False) ''t0'' (ex_msg ''c9'' 1 7 SYS_CLOSE [ArgInt32 3] 0) of
      Inr log \<Rightarrow> (Log.NamespaceName log, Log.PodName log, Log.ContainerName log) = ('''', '''', '''')
    | Inl p \<Rightarrow> False)"
proof -
  obtain l1 where h1: "BuildLogBase (ex_mon False) ''t0'' (ex_msg ''c1'' 1 7 SYS_CLOSE [ArgInt32 3] 0) = Inr l1"
    by (simp add: eval_defs ex_defs)
  obtain l2 where h2: "BuildLogBase (ex_mon False) ''t0'' (ex_msg ''c9'' 1 7 SYS_CLOSE [ArgInt32 3] 0) = Inr l2"
    by (simp add: eval_defs ex_defs)
  have c1: "Containers (ex_mon False) ''c1'' \<noteq> None" and c9: "Containers (ex_mon False) ''c9'' = None"
    by (simp_all add: ex_mon_def)
  have "(Log.NamespaceName l1, Log.PodName l1, Log.ContainerName l1) = (''ns1'', ''web'', ''nginx'')"
    using BuildLogBase_attribution
            [of "ex_mon False" "''c1''" "''t0''" "ex_msg ''c1'' 1 7 SYS_CLOSE [ArgInt32 3] 0"] h1
    by (simp add: ex_mon_def ex_msg_def)
  moreover have "(Log.NamespaceName l2, Log.PodName l2, Log.ContainerName l2) = ('''', '''', '''')"
    using BuildLogBase_attribution
            [of "ex_mon False" "''c9''" "''t0''" "ex_msg ''c9'' 1 7 SYS_CLOSE [ArgInt32 3] 0"] h2 c9
    by (simp add: ex_msg_def)
  ultimately show ?thesis using h1 h2 c1 c9 by simp
qed

subsection \<open>C9: a log with an empty update time\<close>

text \<open>
  Claim C9. When the log's \<open>UpdatedTime\<close> is the empty string after policy decoration,
  \<open>PushLog\<close> returns nil and leaves the whole state as it was: nothing is printed,
  no file is written, and the \<open>Logs\<close> queue is unchanged.
\<close>

theorem PushLog_empty_UpdatedTime:
  assumes "Log.UpdatedTime (UpdateMatchedPolicy fd log) = ''''"
  shows "PushLog UpdateMatchedPolicy Marshal fd log w = (w, None)"
  using assms by (simp add: PushLog_def)

text \<open>
  Witness for C9: the example matcher with system logs switched off, on a feeder that
  prints to standard output.
\<close>

theorem PushLog_empty_UpdatedTime_witness:
  "Log.UpdatedTime (ex_matcher (ex_feeder\<lparr>output' := ''stdout'', EnableSystemLog := False\<rparr>)
       (Log_zero\<lparr>Log.UpdatedTime := ''t0''\<rparr>)) = '''' \<and>
   PushLog ex_matcher (\<lambda>log. ''{}'') (ex_feeder\<lparr>output' := ''stdout'', EnableSystemLog := False\<rparr>)
       (Log_zero\<lparr>Log.UpdatedTime := ''t0''\<rparr>) (ex_world Map.empty Map.empty (\<lambda>c. False) [] []) =
     (ex_world Map.empty Map.empty (\<lambda>c. False) [] [], None)"
proof -
  have h: "Log.UpdatedTime (ex_matcher (ex_feeder\<lparr>output' := ''stdout'', EnableSystemLog := False\<rparr>)
       (Log_zero\<lparr>Log.UpdatedTime := ''t0''\<rparr>)) = ''''"
    by (simp add: ex_matcher_def)
  from PushLog_empty_UpdatedTime
         [of ex_matcher "ex_feeder\<lparr>output' := ''stdout'', EnableSystemLog := False\<rparr>"
             "Log_zero\<lparr>Log.UpdatedTime := ''t0''\<rparr>", OF h] h
  show ?thesis by simp
qed

subsection \<open>C10: the message filter\<close>

text \<open>
  Claim C10. A pass of \<open>WatchMessages\<close> empties the queue and sends every message that
  was in it to every registered message subscriber, whatever the subscriber's filter. The
  filter is stored at registration and plays no part in delivery: rewriting every stored
  filter by any function \<open>g\<close> leaves the sequence of sends (stream, message, outcome)
  the same.
\<close>

theorem WatchMessages_ignores_filter:
  "MsgQueue (WatchMessages_pass ks w) = [] \<and>
   (range_order ks (MsgStructs (service w)) \<and> MsgStructs (service w) uid = Some mgs \<and>
    msg \<in> set (MsgQueue w) \<longrightarrow>
      (mgs, msg, if Broken w (MsgStruct.Client mgs) then Some StreamError else None)
        \<in> set (MsgSends (WatchMessages_pass ks w))) \<and>
   map (\<lambda>(mgs, m, err). (MsgStruct.Client mgs, m, err))
       (MsgSends (WatchMessages_pass ks
          (w\<lparr>service := (service w)\<lparr>MsgStructs :=
                (\<lambda>k. map_option (\<lambda>mgs. mgs\<lparr>MsgStruct.Filter := g (MsgStruct.Filter mgs)\<rparr>)
                       (MsgStructs (service w) k))\<rparr>\<rparr>))) =
     map (\<lambda>(mgs, m, err). (MsgStruct.Client mgs, m, err)) (MsgSends (WatchMessages_pass ks w)) \<and>
   MsgStructs (addMsgStruct uid' srv f ls) uid' = Some \<lparr>MsgStruct.Client = srv, MsgStruct.Filter = f\<rparr>"
proof -
  have a: "MsgQueue (WatchMessages_pass ks w) = []"
    by (simp add: WatchMessages_pass_eq)
  have c: "map (\<lambda>(mgs, m, err). (MsgStruct.Client mgs, m, err))
       (MsgSends (WatchMessages_pass ks
          (w\<lparr>service := (service w)\<lparr>MsgStructs :=
                (\<lambda>k. map_option (\<lambda>mgs. mgs\<lparr>MsgStruct.Filter := g (MsgStruct.Filter mgs)\<rparr>)
                       (MsgStructs (service w) k))\<rparr>\<rparr>))) =
     map (\<lambda>(mgs, m, err). (MsgStruct.Client mgs, m, err)) (MsgSends (WatchMessages_pass ks w))"
    by (simp add: WatchMessages_pass_eq getMsgStructs_refilter map_concat comp_def Send_result_def)
  have d: "MsgStructs (addMsgStruct uid' srv f ls) uid' = Some \<lparr>MsgStruct.Client = srv, MsgStruct.Filter = f\<rparr>"
    by (simp add: addMsgStruct_def)
  show ?thesis using a WatchMessages_pass_sends c d by blast
qed

text \<open>
  Witness for C10: a subscriber registered with a filter nobody knows receives the
  message.
\<close>

theorem WatchMessages_ignores_filter_witness:
  "range_order [''m1'', ''m2''] [''m1'' \<mapsto> ex_msub 1 ''policy'', ''m2'' \<mapsto> ex_msub 2 ''no-such-filter''] \<and>
   (ex_msub 2 ''no-such-filter'', ex_pb_msg, None)
      \<in> set (MsgSends (WatchMessages_pass [''m1'', ''m2'']
            (ex_world [''m1'' \<mapsto> ex_msub 1 ''policy'', ''m2'' \<mapsto> ex_msub 2 ''no-such-filter'']
               Map.empty (\<lambda>c. False) [ex_pb_msg] [])))"
proof -
  let ?w = "ex_world [''m1'' \<mapsto> ex_msub 1 ''policy'', ''m2'' \<mapsto> ex_msub 2 ''no-such-filter'']
               Map.empty (\<lambda>c. False) [ex_pb_msg] []"
  have h1: "range_order [''m1'', ''m2''] [''m1'' \<mapsto> ex_msub 1 ''policy'', ''m2'' \<mapsto> ex_msub 2 ''no-such-filter'']"
    by (auto simp: range_order_def)
  from WatchMessages_ignores_filter
         [of "[''m1'', ''m2'']" ?w "''m2''" "ex_msub 2 ''no-such-filter''" ex_pb_msg] h1
  show ?thesis
    by (simp add: ex_world_def ex_msub_def)
qed

end
